theory Spec2Isabelle
  imports Complex_Main "HOL-Library.Word" "HOL-Library.Multiset"
begin

section \<open>Data model of \<^verbatim>\<open>main.go\<close>\<close>

text \<open>
  Go's \<^verbatim>\<open>int\<close> is modelled as a 64-bit word read in two's complement (\<open>sint\<close>), so the
  subtraction \<^verbatim>\<open>days1-days2\<close> wraps around as it does on a 64-bit platform.
  Go's \<^verbatim>\<open>float64\<close> is modelled as \<open>real\<close>: every result below is about exact real
  arithmetic; rounding, infinities and NaN are outside this development.
  The loop counters \<^verbatim>\<open>k\<close> and \<^verbatim>\<open>i\<close> of \<^verbatim>\<open>predictWeightedKNN\<close> never leave the range
  between the argument \<^verbatim>\<open>k\<close> and the length of the slice, so they are plain integers.
\<close>

type_synonym go_int = "64 word"

record InputTriple =
  TripDurationDays :: go_int
  MilesTraveled :: real
  TotalReceiptsAmount :: real

record TestCase =
  Input :: InputTriple
  ExpectedOutput :: real

record Neighbor =
  Distance :: real
  Output :: real

type_synonym TrainingData = "TestCase list"

text \<open>A run of \<^verbatim>\<open>predictWeightedKNN\<close> either returns a number or panics on an index.\<close>

datatype error = IndexOutOfRange

section \<open>The distance function\<close>

definition calculateDistance ::
  "go_int \<Rightarrow> real \<Rightarrow> real \<Rightarrow> go_int \<Rightarrow> real \<Rightarrow> real \<Rightarrow> real" where
  "calculateDistance days1 miles1 receipts1 days2 miles2 receipts2 =
     (let dayScale = 20;
          mileScale = 2000;
          receiptScale = 3000;
          daysDiff = real_of_int (sint (days1 - days2)) / dayScale;
          milesDiff = (miles1 - miles2) / mileScale;
          receiptsDiff = (receipts1 - receipts2) / receiptScale
      in sqrt (daysDiff * daysDiff + milesDiff * milesDiff + receiptsDiff * receiptsDiff))"

section \<open>The predictor\<close>

text \<open>
  The first loop of \<^verbatim>\<open>predictWeightedKNN\<close>: the training cases are visited in order and
  the first one that matches the query returns its expected output at once.
\<close>

definition exactMatch :: "go_int \<Rightarrow> real \<Rightarrow> real \<Rightarrow> TestCase \<Rightarrow> bool" where
  "exactMatch tripDays miles receipts tcase =
     (TripDurationDays (Input tcase) = tripDays \<and>
      \<bar>MilesTraveled (Input tcase) - miles\<bar> < 0.001 \<and>
      \<bar>TotalReceiptsAmount (Input tcase) - receipts\<bar> < 0.001)"

fun exactMatchLoop :: "go_int \<Rightarrow> real \<Rightarrow> real \<Rightarrow> TrainingData \<Rightarrow> real option" where
  "exactMatchLoop tripDays miles receipts [] = None"
| "exactMatchLoop tripDays miles receipts (tcase # rest) =
     (if exactMatch tripDays miles receipts tcase then Some (ExpectedOutput tcase)
      else exactMatchLoop tripDays miles receipts rest)"

text \<open>The second loop appends one neighbor per training case, in the order of the cases.\<close>

definition distanceLoop :: "go_int \<Rightarrow> real \<Rightarrow> real \<Rightarrow> TrainingData \<Rightarrow> Neighbor list" where
  "distanceLoop tripDays miles receipts training =
     map (\<lambda>tcase.
            \<lparr>Distance = calculateDistance tripDays miles receipts
                 (TripDurationDays (Input tcase)) (MilesTraveled (Input tcase))
                 (TotalReceiptsAmount (Input tcase)),
             Output = ExpectedOutput tcase\<rparr>)
         training"

text \<open>
  \<^verbatim>\<open>sort.Slice\<close> belongs to Go's standard library, not to this program. The program
  hands it the comparison \<open>neighborLess\<close>; the library promises a rearrangement of the
  slice in which no element is less than an element before it, and explicitly does not
  promise to keep equal elements in their original order. The predictor therefore
  takes the sorting routine as its first argument, and \<open>sortSlice_contract\<close> states
  what the library promises about it.
\<close>

definition neighborLess :: "Neighbor \<Rightarrow> Neighbor \<Rightarrow> bool" where
  "neighborLess a b = (Distance a < Distance b)"

definition sortSlice_contract :: "(Neighbor list \<Rightarrow> Neighbor list) \<Rightarrow> bool" where
  "sortSlice_contract sortSlice =
     (\<forall>neighbors. mset (sortSlice neighbors) = mset neighbors \<and>
        sorted_wrt (\<lambda>a b. \<not> neighborLess b a) (sortSlice neighbors))"

text \<open>
  Two routines that keep the promise, for use where a statement is about every such
  routine: one leaves ties in place, one reverses them. Neither is the library's; what
  \<^verbatim>\<open>sort.Slice\<close> itself does to short slices is transcribed further below.
\<close>

definition stableSortSlice :: "Neighbor list \<Rightarrow> Neighbor list" where
  "stableSortSlice neighbors = sort_key Distance neighbors"


text \<open>
  The third loop, \<^verbatim>\<open>for i := 0; i < k; i++\<close>, with its two accumulators. Reading
  \<^verbatim>\<open>neighbors[i]\<close> outside the slice panics.
\<close>

function aggregateLoop ::
  "Neighbor list \<Rightarrow> int \<Rightarrow> int \<Rightarrow> real \<Rightarrow> real \<Rightarrow> error + real \<times> real" where
  "aggregateLoop neighbors k i weightedSum totalWeight =
     (if i < k then
        (if 0 \<le> i \<and> i < int (length neighbors) then
           (let epsilon = 0.00000001;
                weight = 1 / (Distance (neighbors ! nat i) + epsilon)
            in aggregateLoop neighbors k (i + 1)
                 (weightedSum + weight * Output (neighbors ! nat i))
                 (totalWeight + weight))
         else Inl IndexOutOfRange)
      else Inr (weightedSum, totalWeight))"
  by pat_completeness auto
termination
  by (relation "measure (\<lambda>(neighbors, k, i, weightedSum, totalWeight). nat (k - i))") auto

definition predictWeightedKNN ::
  "(Neighbor list \<Rightarrow> Neighbor list) \<Rightarrow> go_int \<Rightarrow> real \<Rightarrow> real \<Rightarrow> TrainingData \<Rightarrow> int
     \<Rightarrow> error + real" where
  "predictWeightedKNN sortSlice tripDays miles receipts training k =
     (case exactMatchLoop tripDays miles receipts training of
        Some output \<Rightarrow> Inr output
      | None \<Rightarrow>
          (let neighbors = sortSlice (distanceLoop tripDays miles receipts training);
               k' = (if k > int (length neighbors) then int (length neighbors) else k)
           in case aggregateLoop neighbors k' 0 0 0 of
                Inl e \<Rightarrow> Inl e
              | Inr (weightedSum, totalWeight) \<Rightarrow>
                  if totalWeight = 0 then
                    (case neighbors of
                       [] \<Rightarrow> Inl IndexOutOfRange
                     | nearest # _ \<Rightarrow> Inr (Output nearest))
                  else Inr (weightedSum / totalWeight)))"

text \<open>
  The neighbors the third loop reads: it runs over the indices below the clamped \<^verbatim>\<open>k\<close>,
  that is over the first \<^verbatim>\<open>k\<close> entries of the sorted slice (lemma \<open>aggregateLoop_selected\<close>
  below relates the loop to this list).
\<close>

definition selectedNeighbors ::
  "(Neighbor list \<Rightarrow> Neighbor list) \<Rightarrow> go_int \<Rightarrow> real \<Rightarrow> real \<Rightarrow> TrainingData \<Rightarrow> int
     \<Rightarrow> Neighbor list" where
  "selectedNeighbors sortSlice tripDays miles receipts training k =
     (let neighbors = sortSlice (distanceLoop tripDays miles receipts training);
          k' = (if k > int (length neighbors) then int (length neighbors) else k)
      in take (nat k') neighbors)"

section \<open>The library routine \<^verbatim>\<open>sort.Slice\<close> on short slices\<close>
























text \<open>Shorthand for writing a training case down: days, miles, receipts, expected output.\<close>

abbreviation testCase :: "go_int \<Rightarrow> real \<Rightarrow> real \<Rightarrow> real \<Rightarrow> TestCase" where
  "testCase days miles receipts output \<equiv>
     \<lparr>Input = \<lparr>TripDurationDays = days, MilesTraveled = miles, TotalReceiptsAmount = receipts\<rparr>,
      ExpectedOutput = output\<rparr>"


section \<open>Machine subtraction of day counts\<close>

lemma sint_sub_nonneg:
  fixes a b :: go_int
  assumes "0 \<le> sint a" "0 \<le> sint b"
  shows "sint (a - b) = sint a - sint b"
proof -
  have "sint a < 2 ^ 63" "sint b < 2 ^ 63"
    using sint_lt [of a] sint_lt [of b] by simp_all
  with assms have "- (2 ^ 63) \<le> sint a - sint b" "sint a - sint b < 2 ^ 63"
    by linarith+
  then have "signed_take_bit 63 (sint a - sint b) = sint a - sint b"
    by (rule signed_take_bit_int_eq_self)
  then show ?thesis
    by (simp add: sint_word_diff)
qed

lemma sint_neg_sq:
  fixes w :: go_int
  shows "sint (- w) * sint (- w) = sint w * sint w"
proof (cases "sint w = - (2 ^ 63)")
  case True
  have "signed_take_bit 63 ((2::int) ^ 63) = - (2 ^ 63)"
    by (simp add: signed_take_bit_eq_take_bit_minus)
  with True show ?thesis
    by (simp add: sint_word_minus)
next
  case False
  have "- (2 ^ 63) \<le> sint w" "sint w < 2 ^ 63"
    using sint_ge [of w] sint_lt [of w] by simp_all
  with False have "- (2 ^ 63) \<le> - sint w" "- sint w < 2 ^ 63"
    by linarith+
  then have "signed_take_bit 63 (- sint w) = - sint w"
    by (rule signed_take_bit_int_eq_self)
  then show ?thesis
    by (simp add: sint_word_minus)
qed

lemma sint_swap_sq:
  fixes a b :: go_int
  shows "sint (a - b) * sint (a - b) = sint (b - a) * sint (b - a)"
  using sint_neg_sq [of "a - b"] by simp

section \<open>Auxiliary facts about the distance function\<close>

lemma calculateDistance_nonneg: "0 \<le> calculateDistance d1 m1 r1 d2 m2 r2"
  by (simp add: calculateDistance_def Let_def)

section \<open>The three loops of the predictor\<close>

lemma exactMatchLoop_first:
  assumes "\<forall>c \<in> set pre. \<not> exactMatch tripDays miles receipts c"
    and "exactMatch tripDays miles receipts r"
  shows "exactMatchLoop tripDays miles receipts (pre @ r # post) = Some (ExpectedOutput r)"
  using assms by (induction pre) simp_all

lemma exactMatchLoop_None_iff:
  "exactMatchLoop tripDays miles receipts training = None
     \<longleftrightarrow> (\<forall>c \<in> set training. \<not> exactMatch tripDays miles receipts c)"
  by (induction training) simp_all

lemma exactMatch_self:
  "exactMatch (TripDurationDays (Input r)) (MilesTraveled (Input r))
     (TotalReceiptsAmount (Input r)) r"
  by (simp add: exactMatch_def)

lemma aggregateLoop_sums:
  assumes "0 \<le> i" and "i \<le> k" and "k \<le> int (length neighbors)"
  shows "aggregateLoop neighbors k i weightedSum totalWeight =
     Inr (weightedSum + (\<Sum>n \<leftarrow> drop (nat i) (take (nat k) neighbors).
                            1 / (Distance n + 0.00000001) * Output n),
          totalWeight + (\<Sum>n \<leftarrow> drop (nat i) (take (nat k) neighbors).
                            1 / (Distance n + 0.00000001)))"
  using assms
proof (induction neighbors k i weightedSum totalWeight rule: aggregateLoop.induct)
  case (1 neighbors k i weightedSum totalWeight)
  show ?case
  proof (cases "i < k")
    case False
    with "1.prems" have "i = k" by simp
    then show ?thesis
      by (subst aggregateLoop.simps) simp
  next
    case True
    with "1.prems" have inb: "0 \<le> i \<and> i < int (length neighbors)" by simp
    have len: "nat i < length (take (nat k) neighbors)"
      using True "1.prems" by simp
    have dr: "drop (nat i) (take (nat k) neighbors)
        = neighbors ! nat i # drop (nat (i + 1)) (take (nat k) neighbors)"
      using Cons_nth_drop_Suc [OF len] "1.prems" True
      by (simp add: nat_add_distrib)
    have ih: "aggregateLoop neighbors k (i + 1)
          (weightedSum + 1 / (Distance (neighbors ! nat i) + 0.00000001) * Output (neighbors ! nat i))
          (totalWeight + 1 / (Distance (neighbors ! nat i) + 0.00000001)) =
        Inr (weightedSum + 1 / (Distance (neighbors ! nat i) + 0.00000001) * Output (neighbors ! nat i)
               + (\<Sum>n \<leftarrow> drop (nat (i + 1)) (take (nat k) neighbors).
                            1 / (Distance n + 0.00000001) * Output n),
             totalWeight + 1 / (Distance (neighbors ! nat i) + 0.00000001)
               + (\<Sum>n \<leftarrow> drop (nat (i + 1)) (take (nat k) neighbors).
                            1 / (Distance n + 0.00000001)))"
      using "1.IH" [OF True inb refl refl] True "1.prems" by simp
    have "aggregateLoop neighbors k i weightedSum totalWeight =
        aggregateLoop neighbors k (i + 1)
          (weightedSum + 1 / (Distance (neighbors ! nat i) + 0.00000001) * Output (neighbors ! nat i))
          (totalWeight + 1 / (Distance (neighbors ! nat i) + 0.00000001))"
      by (subst aggregateLoop.simps) (simp add: True inb Let_def del: aggregateLoop.simps)
    also note ih
    finally show ?thesis
      by (simp add: dr add.assoc)
  qed
qed

section \<open>What the sorting routine guarantees\<close>

lemma sortSlice_contract_length:
  "sortSlice_contract sortSlice \<Longrightarrow> length (sortSlice neighbors) = length neighbors"
  unfolding sortSlice_contract_def by (metis size_mset)

lemma sortSlice_contract_set:
  "sortSlice_contract sortSlice \<Longrightarrow> set (sortSlice neighbors) = set neighbors"
  unfolding sortSlice_contract_def by (metis set_mset_mset)

lemma sortSlice_contract_sorted:
  "sortSlice_contract sortSlice \<Longrightarrow>
     sorted_wrt (\<lambda>a b. Distance a \<le> Distance b) (sortSlice neighbors)"
  unfolding sortSlice_contract_def neighborLess_def by (simp add: not_less)

lemma sort_key_Distance_sorted:
  fixes neighbors :: "Neighbor list"
  shows "sorted_wrt (\<lambda>a b. Distance a \<le> Distance b) (sort_key Distance neighbors)"
  using sorted_sort_key [of Distance neighbors] by (simp add: sorted_map)

lemma stableSortSlice_contract: "sortSlice_contract stableSortSlice"
  unfolding sortSlice_contract_def stableSortSlice_def neighborLess_def
  by (simp add: not_less sort_key_Distance_sorted)


section \<open>Weighted aggregation\<close>

lemma aggregateLoop_selected:
  assumes "k \<le> int (length neighbors)"
  shows "aggregateLoop neighbors k 0 0 0 =
     Inr ((\<Sum>n \<leftarrow> take (nat k) neighbors. 1 / (Distance n + 0.00000001) * Output n),
          (\<Sum>n \<leftarrow> take (nat k) neighbors. 1 / (Distance n + 0.00000001)))"
proof (cases "0 \<le> k")
  case True
  then show ?thesis
    using aggregateLoop_sums [of 0 k neighbors 0 0] assms by simp
next
  case False
  then have "nat k = 0" by simp
  with False show ?thesis
    by (subst aggregateLoop.simps) simp
qed

lemma distanceLoop_length [simp]:
  "length (distanceLoop tripDays miles receipts training) = length training"
  by (simp add: distanceLoop_def)

lemma distanceLoop_nonneg:
  "n \<in> set (distanceLoop tripDays miles receipts training) \<Longrightarrow> 0 \<le> Distance n"
  by (auto simp: distanceLoop_def calculateDistance_nonneg)

lemma weight_pos: "0 \<le> Distance n \<Longrightarrow> 0 < 1 / (Distance n + 0.00000001)"
  by simp

lemma sum_list_pos_weights:
  assumes "xs \<noteq> []" and "\<forall>n \<in> set xs. 0 < (w n :: real)"
  shows "0 < (\<Sum>n \<leftarrow> xs. w n)"
  using assms
proof (induction xs)
  case Nil
  then show ?case by simp
next
  case (Cons a xs)
  show ?case
  proof (cases "xs = []")
    case True
    with Cons.prems show ?thesis by simp
  next
    case False
    with Cons have "0 < (\<Sum>n \<leftarrow> xs. w n)" by simp
    moreover from Cons.prems have "0 < w a" by simp
    ultimately show ?thesis by simp
  qed
qed

lemma weighted_sum_lower:
  assumes "\<forall>n \<in> set xs. 0 \<le> (w n :: real) \<and> lo \<le> f n"
  shows "lo * (\<Sum>n \<leftarrow> xs. w n) \<le> (\<Sum>n \<leftarrow> xs. w n * f n)"
  using assms
proof (induction xs)
  case Nil
  then show ?case by simp
next
  case (Cons a xs)
  then have "lo * (\<Sum>n \<leftarrow> xs. w n) \<le> (\<Sum>n \<leftarrow> xs. w n * f n)" by simp
  moreover from Cons.prems have "w a * lo \<le> w a * f a"
    by (simp add: mult_left_mono)
  ultimately show ?case
    by (simp add: algebra_simps)
qed

lemma weighted_sum_upper:
  assumes "\<forall>n \<in> set xs. 0 \<le> (w n :: real) \<and> f n \<le> hi"
  shows "(\<Sum>n \<leftarrow> xs. w n * f n) \<le> hi * (\<Sum>n \<leftarrow> xs. w n)"
  using assms
proof (induction xs)
  case Nil
  then show ?case by simp
next
  case (Cons a xs)
  then have "(\<Sum>n \<leftarrow> xs. w n * f n) \<le> hi * (\<Sum>n \<leftarrow> xs. w n)" by simp
  moreover from Cons.prems have "w a * f a \<le> w a * hi"
    by (simp add: mult_left_mono)
  ultimately show ?case
    by (simp add: algebra_simps)
qed

lemma weighted_average_bounds:
  assumes ne: "xs \<noteq> []" and pos: "\<forall>n \<in> set xs. 0 < (w n :: real)"
  shows "Min (f ` set xs) \<le> (\<Sum>n \<leftarrow> xs. w n * f n) / (\<Sum>n \<leftarrow> xs. w n)"
    and "(\<Sum>n \<leftarrow> xs. w n * f n) / (\<Sum>n \<leftarrow> xs. w n) \<le> Max (f ` set xs)"
proof -
  have tot: "0 < (\<Sum>n \<leftarrow> xs. w n)"
    using sum_list_pos_weights [OF ne pos] .
  have "\<forall>n \<in> set xs. 0 \<le> w n \<and> Min (f ` set xs) \<le> f n"
    using pos by (auto intro: less_imp_le)
  from weighted_sum_lower [OF this] tot
  show "Min (f ` set xs) \<le> (\<Sum>n \<leftarrow> xs. w n * f n) / (\<Sum>n \<leftarrow> xs. w n)"
    by (simp add: pos_le_divide_eq)
  have "\<forall>n \<in> set xs. 0 \<le> w n \<and> f n \<le> Max (f ` set xs)"
    using pos by (auto intro: less_imp_le)
  from weighted_sum_upper [OF this] tot
  show "(\<Sum>n \<leftarrow> xs. w n * f n) / (\<Sum>n \<leftarrow> xs. w n) \<le> Max (f ` set xs)"
    by (simp add: pos_divide_le_eq)
qed

text \<open>What the predictor returns once the first loop has found no match.\<close>

lemma predictWeightedKNN_no_match:
  assumes c: "sortSlice_contract sortSlice"
    and nm: "exactMatchLoop tripDays miles receipts training = None"
  shows "predictWeightedKNN sortSlice tripDays miles receipts training k =
     (if (\<Sum>n \<leftarrow> selectedNeighbors sortSlice tripDays miles receipts training k.
            1 / (Distance n + 0.00000001)) = 0
      then (case sortSlice (distanceLoop tripDays miles receipts training) of
              [] \<Rightarrow> Inl IndexOutOfRange
            | nearest # _ \<Rightarrow> Inr (Output nearest))
      else Inr ((\<Sum>n \<leftarrow> selectedNeighbors sortSlice tripDays miles receipts training k.
                   1 / (Distance n + 0.00000001) * Output n)
              / (\<Sum>n \<leftarrow> selectedNeighbors sortSlice tripDays miles receipts training k.
                   1 / (Distance n + 0.00000001))))"
proof -
  define neighbors where "neighbors = sortSlice (distanceLoop tripDays miles receipts training)"
  define k' where "k' = (if k > int (length neighbors) then int (length neighbors) else k)"
  have "k' \<le> int (length neighbors)"
    by (simp add: k'_def)
  note loop = aggregateLoop_selected [OF this]
  have sel: "selectedNeighbors sortSlice tripDays miles receipts training k = take (nat k') neighbors"
    by (simp add: selectedNeighbors_def neighbors_def k'_def Let_def)
  show ?thesis
    unfolding predictWeightedKNN_def sel
    by (simp add: nm Let_def loop neighbors_def [symmetric] k'_def [symmetric]
          del: aggregateLoop.simps)
qed

section \<open>Distances along one coordinate\<close>

text \<open>Closed forms of the distance when only one coordinate differs.\<close>

lemma calculateDistance_days_only:
  "calculateDistance d1 m r d2 m r = \<bar>real_of_int (sint (d1 - d2))\<bar> / 20"
proof -
  have "sqrt (real_of_int (sint (d1 - d2)) / 20 * (real_of_int (sint (d1 - d2)) / 20))
      = \<bar>real_of_int (sint (d1 - d2)) / 20\<bar>"
    by (rule real_sqrt_abs2)
  then show ?thesis
    by (simp add: calculateDistance_def Let_def)
qed

lemma calculateDistance_miles_only:
  "calculateDistance d m1 r d m2 r = \<bar>m1 - m2\<bar> / 2000"
proof -
  have "sqrt ((m1 - m2) / 2000 * ((m1 - m2) / 2000)) = \<bar>(m1 - m2) / 2000\<bar>"
    by (rule real_sqrt_abs2)
  then show ?thesis
    by (simp add: calculateDistance_def Let_def)
qed

text \<open>
  An instance where the 64-bit subtraction of the day counts wraps around: the day counts
  are \<open>2\<^sup>6\<^sup>3 - 1\<close> and \<open>-2\<close>, their difference is \<open>2\<^sup>6\<^sup>3 + 1\<close>, and the distance
  computed is \<open>(2\<^sup>6\<^sup>3 - 1) / 20\<close>. This is why the distance formula below is stated for day counts
  that are not negative.
\<close>

lemma calculateDistance_wraps:
  "calculateDistance 9223372036854775807 0 0 (- 2) 0 0 = 9223372036854775807 / 20"
  by (simp add: calculateDistance_days_only)

section \<open>The selected neighbors\<close>

lemma selectedNeighbors_take:
  "selectedNeighbors sortSlice tripDays miles receipts training k =
     take (nat k) (sortSlice (distanceLoop tripDays miles receipts training))"
  by (simp add: selectedNeighbors_def Let_def)

lemma selectedNeighbors_subset:
  assumes "sortSlice_contract sortSlice"
  shows "set (selectedNeighbors sortSlice tripDays miles receipts training k)
     \<subseteq> set (distanceLoop tripDays miles receipts training)"
  using sortSlice_contract_set [OF assms, of "distanceLoop tripDays miles receipts training"]
    set_take_subset [of "nat k" "sortSlice (distanceLoop tripDays miles receipts training)"]
  by (simp add: selectedNeighbors_take)

lemma selectedNeighbors_weights_pos:
  assumes "sortSlice_contract sortSlice"
  shows "\<forall>n \<in> set (selectedNeighbors sortSlice tripDays miles receipts training k).
           0 < 1 / (Distance n + 0.00000001)"
  using selectedNeighbors_subset [OF assms] distanceLoop_nonneg weight_pos by blast

lemma selectedNeighbors_nonempty:
  assumes "sortSlice_contract sortSlice" and "training \<noteq> []" and "0 < k"
  shows "selectedNeighbors sortSlice tripDays miles receipts training k \<noteq> []"
  using sortSlice_contract_length [OF assms(1), of "distanceLoop tripDays miles receipts training"]
    assms(2,3)
  by (auto simp: selectedNeighbors_take)

lemma sum_list_map_mset_cong:
  fixes f :: "'a \<Rightarrow> real"
  assumes "mset xs = mset ys"
  shows "(\<Sum>x \<leftarrow> xs. f x) = (\<Sum>x \<leftarrow> ys. f x)"
proof -
  have "sum_mset (image_mset f (mset xs)) = sum_mset (image_mset f (mset ys))"
    using assms by simp
  then show ?thesis
    by (simp only: mset_map [symmetric] sum_mset_sum_list)
qed

lemma ranked_nonempty:
  assumes "sortSlice_contract sortSlice" and "training \<noteq> []"
  shows "sortSlice (distanceLoop tripDays miles receipts training) \<noteq> []"
  using sortSlice_contract_length [OF assms(1), of "distanceLoop tripDays miles receipts training"]
    assms(2)
  by auto

lemma sorted_hd_nearest:
  assumes "sorted_wrt (\<lambda>a b. Distance a \<le> Distance b) neighbors" and "n \<in> set neighbors"
  shows "Distance (hd neighbors) \<le> Distance n"
  using assms by (cases neighbors) auto

section \<open>The nearest neighbors as a multiset\<close>



section \<open>The exact-match short-circuit\<close>

text \<open>
  Claim C1, as the code has it. A query with exactly the input triple of a record \<open>R\<close> of
  the training set returns the expected output of \<open>R\<close>, provided no record before \<open>R\<close>
  in the training set matches that triple (same days, miles and receipts each less than
  0.001 away). The sorting routine and \<open>k\<close> play no part.
\<close>

theorem exact_query_returns_record_output:
  assumes "training = pre @ R # post"
    and "\<forall>c \<in> set pre. \<not> exactMatch (TripDurationDays (Input R)) (MilesTraveled (Input R))
            (TotalReceiptsAmount (Input R)) c"
  shows "predictWeightedKNN sortSlice (TripDurationDays (Input R)) (MilesTraveled (Input R))
            (TotalReceiptsAmount (Input R)) training k = Inr (ExpectedOutput R)"
  using exactMatchLoop_first [OF assms(2) exactMatch_self, of post]
  by (simp add: predictWeightedKNN_def assms(1))

text \<open>
  The second of three records is queried; the first is 0.5 miles away and does not match,
  the third has the same input triple and comes too late.
\<close>

theorem exact_query_returns_record_output_witness:
  "predictWeightedKNN stableSortSlice 3 100 50
     [testCase 3 100.5 50 120, testCase 3 100 50 130, testCase 3 100 50 140] 5 = Inr 130"
proof -
  have h: "\<forall>c \<in> set [testCase 3 100.5 50 120].
      \<not> exactMatch (TripDurationDays (Input (testCase 3 100 50 130)))
          (MilesTraveled (Input (testCase 3 100 50 130)))
          (TotalReceiptsAmount (Input (testCase 3 100 50 130))) c"
    by (simp add: exactMatch_def)
  show ?thesis
    using exact_query_returns_record_output [OF _ h,
        of "[testCase 3 100.5 50 120, testCase 3 100 50 130, testCase 3 100 50 140]"
           "[testCase 3 100 50 140]" stableSortSlice 5]
    by simp
qed

text \<open>
  Claim C1 as stated fails when an earlier record has the same input triple and another
  expected output: the first loop returns at the first match, here 120, and the record
  queried expects 130.
\<close>

theorem exact_query_duplicate_counterexample:
  "testCase 3 100 50 130 \<in> set [testCase 3 100 50 120, testCase 3 100 50 130]
   \<and> predictWeightedKNN stableSortSlice 3 100 50
       [testCase 3 100 50 120, testCase 3 100 50 130] 5 = Inr 120
   \<and> ExpectedOutput (testCase 3 100 50 130) \<noteq> 120"
  by (simp add: predictWeightedKNN_def exactMatch_def)

text \<open>
  Claim C2, as the code has it. If the first record of the training set that matches the
  query is \<open>R\<close>, where matching means equal days and miles and receipts each strictly less
  than 0.001 away from the query, the predictor returns the expected output of \<open>R\<close>,
  whatever the sorting routine and \<open>k\<close> are: no distance is computed.
\<close>

theorem tolerance_match_returns_first_record:
  assumes "training = pre @ R # post"
    and "\<forall>c \<in> set pre. \<not> exactMatch tripDays miles receipts c"
    and "TripDurationDays (Input R) = tripDays"
    and "\<bar>MilesTraveled (Input R) - miles\<bar> < 0.001"
    and "\<bar>TotalReceiptsAmount (Input R) - receipts\<bar> < 0.001"
  shows "predictWeightedKNN sortSlice tripDays miles receipts training k = Inr (ExpectedOutput R)"
proof -
  have "exactMatch tripDays miles receipts R"
    using assms(3-5) by (simp add: exactMatch_def)
  from exactMatchLoop_first [OF assms(2) this, of post] show ?thesis
    by (simp add: predictWeightedKNN_def assms(1))
qed

text \<open>
  Four records: the first is 0.0016 miles off, the second has another day count, the third
  is 0.0004 off on miles and on receipts and is returned, the fourth matches exactly but
  comes later.
\<close>

theorem tolerance_match_returns_first_record_witness:
  "predictWeightedKNN stableSortSlice 3 100.0004 49.9996
     [testCase 3 100.002 50 110, testCase 4 100 50 120, testCase 3 100 50 130,
      testCase 3 100.0004 49.9996 140] 5 = Inr 130"
proof -
  have h2: "\<forall>c \<in> set [testCase 3 100.002 50 110, testCase 4 100 50 120].
      \<not> exactMatch 3 100.0004 49.9996 c"
    by (simp add: exactMatch_def)
  have h3: "TripDurationDays (Input (testCase 3 100 50 130)) = 3" by simp
  have h4: "\<bar>MilesTraveled (Input (testCase 3 100 50 130)) - 100.0004\<bar> < 0.001" by simp
  have h5: "\<bar>TotalReceiptsAmount (Input (testCase 3 100 50 130)) - 49.9996\<bar> < 0.001" by simp
  show ?thesis
    using tolerance_match_returns_first_record [OF _ h2 h3 h4 h5,
        of "[testCase 3 100.002 50 110, testCase 4 100 50 120, testCase 3 100 50 130,
             testCase 3 100.0004 49.9996 140]"
           "[testCase 3 100.0004 49.9996 140]" stableSortSlice 5]
    by simp
qed

text \<open>
  Claim C2 as stated (a difference of at most 0.001) fails on the boundary: the comparison
  in the code is strict. The query is exactly 0.001 miles from the first record, the first
  loop finds no match, and the result is the weighted blend of both records, which is not
  the first record's expected output.
\<close>

theorem tolerance_boundary_counterexample:
  "TripDurationDays (Input (testCase 3 0 50 100)) = 3
   \<and> \<bar>MilesTraveled (Input (testCase 3 0 50 100)) - 0.001\<bar> \<le> 0.001
   \<and> \<bar>TotalReceiptsAmount (Input (testCase 3 0 50 100)) - 50\<bar> \<le> 0.001
   \<and> predictWeightedKNN stableSortSlice 3 0.001 50
        [testCase 3 0 50 100, testCase 3 4000.001 50 200] 5
      = Inr ((1 / (0.0000005 + 0.00000001) * 100 + 1 / (2 + 0.00000001) * 200)
             / (1 / (0.0000005 + 0.00000001) + 1 / (2 + 0.00000001)))
   \<and> (1 / (0.0000005 + 0.00000001) * 100 + 1 / (2 + 0.00000001) * 200)
             / (1 / (0.0000005 + 0.00000001) + 1 / (2 + 0.00000001))
      \<noteq> ExpectedOutput (testCase 3 0 50 100)"
  by (simp add: predictWeightedKNN_def exactMatch_def distanceLoop_def
        calculateDistance_miles_only stableSortSlice_def Let_def)

section \<open>Properties of the distance function\<close>

text \<open>
  Claim C3. For two input triples, whose day counts are not negative, the distance is the
  Euclidean norm of the three differences, the days divided by 20, the miles by 2000, the
  receipts by 3000: \<open>sqrt (((d1 - d2) / 20)\<^sup>2 + ((m1 - m2) / 2000)\<^sup>2 + ((r1 - r2) / 3000)\<^sup>2)\<close>,
  where \<open>d1 - d2\<close> is the difference of the two integers and not its 64-bit wrap-around.
\<close>

theorem calculateDistance_formula:
  assumes "0 \<le> sint d1" and "0 \<le> sint d2"
  shows "calculateDistance d1 m1 r1 d2 m2 r2 =
    sqrt (((real_of_int (sint d1) - real_of_int (sint d2)) / 20)\<^sup>2
          + ((m1 - m2) / 2000)\<^sup>2 + ((r1 - r2) / 3000)\<^sup>2)"
  using sint_sub_nonneg [OF assms]
  by (simp add: calculateDistance_def Let_def power2_eq_square)

text \<open>Days 3 and 23, equal miles and receipts: the distance is \<open>20 / 20 = 1\<close>.\<close>

theorem calculateDistance_formula_witness:
  "0 \<le> sint (3 :: go_int) \<and> 0 \<le> sint (23 :: go_int) \<and>
   calculateDistance 3 100 50 23 100 50 = 1"
  using calculateDistance_formula [of 3 23 100 50 100 50]
  by simp

text \<open>
  Claim C8. The distance is symmetric: exchanging the two input triples does not change
  it. This holds for all day counts, also where the subtraction wraps around.
\<close>

theorem calculateDistance_symmetric:
  "calculateDistance d1 m1 r1 d2 m2 r2 = calculateDistance d2 m2 r2 d1 m1 r1"
proof -
  have "real_of_int (sint (d1 - d2)) * real_of_int (sint (d1 - d2))
      = real_of_int (sint (d2 - d1)) * real_of_int (sint (d2 - d1))"
    using sint_swap_sq [of d1 d2] by (metis of_int_mult)
  moreover have "(m1 - m2) * (m1 - m2) = (m2 - m1) * (m2 - m1)"
    by (simp add: algebra_simps)
  moreover have "(r1 - r2) * (r1 - r2) = (r2 - r1) * (r2 - r1)"
    by (simp add: algebra_simps)
  ultimately show ?thesis
    by (simp add: calculateDistance_def Let_def)
qed

text \<open>
  Claim C9. The distance between two input triples is never negative, and the distance
  from an input triple to itself is zero.
\<close>

theorem calculateDistance_nonneg_diag:
  "0 \<le> calculateDistance d1 m1 r1 d2 m2 r2 \<and> calculateDistance d1 m1 r1 d1 m1 r1 = 0"
  by (simp add: calculateDistance_def Let_def)

section \<open>Ranking, selection and aggregation\<close>

text \<open>
  The weighted average in exact arithmetic. For a non-empty training set, a query without
  exact match and a positive \<open>k\<close>, the quotient of the two sums lies between the least and
  the greatest output of the selected neighbors. This is a fact about real numbers only.
  The program computes the two sums and the quotient in \<^verbatim>\<open>float64\<close>, rounding after
  every operation, and the rounded quotient can fall outside that interval: for one record
  with output 100 at 10 miles from the query, IEEE arithmetic gives
  \<^verbatim>\<open>99.99999999999999\<close>. Nothing below says where the rounded value lies.
\<close>

lemma exact_average_within_selected_range:
  assumes "sortSlice_contract sortSlice"
    and "training \<noteq> []"
    and "exactMatchLoop tripDays miles receipts training = None"
    and "0 < k"
  shows "\<exists>v. predictWeightedKNN sortSlice tripDays miles receipts training k = Inr v
     \<and> Min (Output ` set (selectedNeighbors sortSlice tripDays miles receipts training k)) \<le> v
     \<and> v \<le> Max (Output ` set (selectedNeighbors sortSlice tripDays miles receipts training k))"
proof -
  let ?sel = "selectedNeighbors sortSlice tripDays miles receipts training k"
  have ne: "?sel \<noteq> []"
    using selectedNeighbors_nonempty [OF assms(1,2,4)] .
  have pos: "\<forall>n \<in> set ?sel. 0 < 1 / (Distance n + 0.00000001)"
    using selectedNeighbors_weights_pos [OF assms(1)] .
  have "0 < (\<Sum>n \<leftarrow> ?sel. 1 / (Distance n + 0.00000001))"
    using sum_list_pos_weights [OF ne pos] .
  then have "predictWeightedKNN sortSlice tripDays miles receipts training k =
      Inr ((\<Sum>n \<leftarrow> ?sel. 1 / (Distance n + 0.00000001) * Output n)
           / (\<Sum>n \<leftarrow> ?sel. 1 / (Distance n + 0.00000001)))"
    using predictWeightedKNN_no_match [OF assms(1,3), of k] by simp
  with weighted_average_bounds [OF ne pos, of Output] show ?thesis
    by blast
qed




text \<open>
  Claim C6. For a non-empty training set of fewer than 5 records and a query without exact
  match, with \<open>k = 5\<close>: the selected neighbors are the neighbors of all records, each
  once, and the predictor returns, without panic, the weighted average over all records
  of the training set.
\<close>

theorem fewer_than_k_uses_all_records:
  assumes "sortSlice_contract sortSlice"
    and "training \<noteq> []"
    and "length training < 5"
    and "exactMatchLoop tripDays miles receipts training = None"
  shows "mset (selectedNeighbors sortSlice tripDays miles receipts training 5)
           = mset (distanceLoop tripDays miles receipts training)
     \<and> predictWeightedKNN sortSlice tripDays miles receipts training 5 =
         Inr ((\<Sum>n \<leftarrow> distanceLoop tripDays miles receipts training.
                  1 / (Distance n + 0.00000001) * Output n)
              / (\<Sum>n \<leftarrow> distanceLoop tripDays miles receipts training.
                  1 / (Distance n + 0.00000001)))"
proof -
  let ?all = "distanceLoop tripDays miles receipts training"
  let ?sel = "selectedNeighbors sortSlice tripDays miles receipts training 5"
  have len: "length (sortSlice ?all) = length training"
    using sortSlice_contract_length [OF assms(1), of ?all] by simp
  have sel: "?sel = sortSlice ?all"
    using len assms(3) by (simp add: selectedNeighbors_take)
  have perm: "mset ?sel = mset ?all"
    using assms(1) by (simp add: sel sortSlice_contract_def)
  have ne: "?sel \<noteq> []"
    using selectedNeighbors_nonempty [OF assms(1,2), of 5] by simp
  have "0 < (\<Sum>n \<leftarrow> ?sel. 1 / (Distance n + 0.00000001))"
    using sum_list_pos_weights [OF ne selectedNeighbors_weights_pos [OF assms(1)]] .
  then have "predictWeightedKNN sortSlice tripDays miles receipts training 5 =
      Inr ((\<Sum>n \<leftarrow> ?sel. 1 / (Distance n + 0.00000001) * Output n)
           / (\<Sum>n \<leftarrow> ?sel. 1 / (Distance n + 0.00000001)))"
    using predictWeightedKNN_no_match [OF assms(1,4), of 5] by simp
  also have "(\<Sum>n \<leftarrow> ?sel. 1 / (Distance n + 0.00000001) * Output n)
      = (\<Sum>n \<leftarrow> ?all. 1 / (Distance n + 0.00000001) * Output n)"
    using perm by (rule sum_list_map_mset_cong)
  also have "(\<Sum>n \<leftarrow> ?sel. 1 / (Distance n + 0.00000001))
      = (\<Sum>n \<leftarrow> ?all. 1 / (Distance n + 0.00000001))"
    using perm by (rule sum_list_map_mset_cong)
  finally show ?thesis
    using perm by simp
qed

text \<open>
  Two records, \<open>k = 5\<close>: both are selected and both enter the average.
\<close>

theorem fewer_than_k_uses_all_records_witness:
  "sortSlice_contract stableSortSlice
   \<and> exactMatchLoop 3 2000 50 [testCase 3 6000 50 200, testCase 3 0 50 100] = None
   \<and> mset (selectedNeighbors stableSortSlice 3 2000 50
             [testCase 3 6000 50 200, testCase 3 0 50 100] 5)
       = {#\<lparr>Distance = 2, Output = 200\<rparr>, \<lparr>Distance = 1, Output = 100\<rparr>#}
   \<and> predictWeightedKNN stableSortSlice 3 2000 50
        [testCase 3 6000 50 200, testCase 3 0 50 100] 5
       = Inr ((1 / (2 + 0.00000001) * 200 + 1 / (1 + 0.00000001) * 100)
              / (1 / (2 + 0.00000001) + 1 / (1 + 0.00000001)))"
proof -
  have h2: "[testCase 3 6000 50 200, testCase 3 0 50 100] \<noteq> []" by simp
  have h3: "length [testCase 3 6000 50 200, testCase 3 0 50 100] < 5" by simp
  have h4: "exactMatchLoop 3 2000 50 [testCase 3 6000 50 200, testCase 3 0 50 100] = None"
    by (simp add: exactMatch_def)
  have d: "distanceLoop 3 2000 50 [testCase 3 6000 50 200, testCase 3 0 50 100]
      = [\<lparr>Distance = 2, Output = 200\<rparr>, \<lparr>Distance = 1, Output = 100\<rparr>]"
    by (simp add: distanceLoop_def calculateDistance_miles_only)
  show ?thesis
    using fewer_than_k_uses_all_records [OF stableSortSlice_contract h2 h3 h4]
      stableSortSlice_contract h4
    by (simp add: d)
qed

text \<open>
  Claim C7. For a non-empty training set and a query without exact match: if the total
  weight of the selected neighbors is zero, the predictor returns the output of the first
  neighbor of the ranked list, which is a nearest one, and no error; otherwise it returns
  the weighted sum divided by the total weight, the weight of a selected neighbor being
  \<open>1 / (distance + 10\<^sup>-\<^sup>8)\<close>.
\<close>

theorem zero_weight_fallback_else_weighted_average:
  assumes "sortSlice_contract sortSlice"
    and "training \<noteq> []"
    and "exactMatchLoop tripDays miles receipts training = None"
  shows "predictWeightedKNN sortSlice tripDays miles receipts training k =
     (if (\<Sum>n \<leftarrow> selectedNeighbors sortSlice tripDays miles receipts training k.
            1 / (Distance n + 0.00000001)) = 0
      then Inr (Output (hd (sortSlice (distanceLoop tripDays miles receipts training))))
      else Inr ((\<Sum>n \<leftarrow> selectedNeighbors sortSlice tripDays miles receipts training k.
                   1 / (Distance n + 0.00000001) * Output n)
              / (\<Sum>n \<leftarrow> selectedNeighbors sortSlice tripDays miles receipts training k.
                   1 / (Distance n + 0.00000001))))
     \<and> (\<forall>n \<in> set (sortSlice (distanceLoop tripDays miles receipts training)).
          Distance (hd (sortSlice (distanceLoop tripDays miles receipts training)))
            \<le> Distance n)"
proof -
  let ?ranked = "sortSlice (distanceLoop tripDays miles receipts training)"
  have "?ranked \<noteq> []"
    using ranked_nonempty [OF assms(1,2)] .
  then have fallback: "(case ?ranked of [] \<Rightarrow> Inl IndexOutOfRange
        | nearest # _ \<Rightarrow> Inr (Output nearest)) = Inr (Output (hd ?ranked))"
    by (cases ?ranked) simp_all
  have nearest: "\<forall>n \<in> set ?ranked. Distance (hd ?ranked) \<le> Distance n"
    using sorted_hd_nearest [OF sortSlice_contract_sorted [OF assms(1)]] by blast
  show ?thesis
    using nearest
    by (simp only: predictWeightedKNN_no_match [OF assms(1,3)] fallback)
qed

text \<open>
  Two records at distances 2 and 1. With \<open>k = 0\<close> nothing is selected, the total weight
  is zero and the nearest record's output 100 is returned; with \<open>k = 5\<close> the weighted
  average of both is returned.
\<close>

theorem zero_weight_fallback_else_weighted_average_witness:
  "sortSlice_contract stableSortSlice
   \<and> exactMatchLoop 3 2000 50 [testCase 3 6000 50 200, testCase 3 0 50 100] = None
   \<and> predictWeightedKNN stableSortSlice 3 2000 50
        [testCase 3 6000 50 200, testCase 3 0 50 100] 0 = Inr 100
   \<and> predictWeightedKNN stableSortSlice 3 2000 50
        [testCase 3 6000 50 200, testCase 3 0 50 100] 5
       = Inr ((1 / (1 + 0.00000001) * 100 + 1 / (2 + 0.00000001) * 200)
              / (1 / (1 + 0.00000001) + 1 / (2 + 0.00000001)))"
proof -
  have h2: "[testCase 3 6000 50 200, testCase 3 0 50 100] \<noteq> []" by simp
  have h3: "exactMatchLoop 3 2000 50 [testCase 3 6000 50 200, testCase 3 0 50 100] = None"
    by (simp add: exactMatch_def)
  have r: "stableSortSlice (distanceLoop 3 2000 50 [testCase 3 6000 50 200, testCase 3 0 50 100])
      = [\<lparr>Distance = 1, Output = 100\<rparr>, \<lparr>Distance = 2, Output = 200\<rparr>]"
    by (simp add: distanceLoop_def calculateDistance_miles_only stableSortSlice_def)
  have s0: "selectedNeighbors stableSortSlice 3 2000 50
        [testCase 3 6000 50 200, testCase 3 0 50 100] 0 = []"
    by (simp add: selectedNeighbors_def Let_def)
  have s5: "selectedNeighbors stableSortSlice 3 2000 50
        [testCase 3 6000 50 200, testCase 3 0 50 100] 5
      = [\<lparr>Distance = 1, Output = 100\<rparr>, \<lparr>Distance = 2, Output = 200\<rparr>]"
    by (simp add: selectedNeighbors_def Let_def r)
  show ?thesis
    using zero_weight_fallback_else_weighted_average [OF stableSortSlice_contract h2 h3, of 0]
      zero_weight_fallback_else_weighted_average [OF stableSortSlice_contract h2 h3, of 5]
      stableSortSlice_contract h3
    by (simp add: r s0 s5)
qed

text \<open>
  Claim C10. The predictor panics on an index exactly when the training set is empty: then
  no exact match exists, no neighbor is accumulated, the total weight stays zero and the
  fallback reads \<^verbatim>\<open>neighbors[0]\<close> of an empty slice. For every non-empty training set it
  returns a number, for every \<open>k\<close>.
\<close>

theorem index_panic_iff_empty_training:
  assumes "sortSlice_contract sortSlice"
  shows "(\<exists>e. predictWeightedKNN sortSlice tripDays miles receipts training k = Inl e)
     \<longleftrightarrow> training = []"
proof (cases "training = []")
  case True
  have "mset (sortSlice []) = mset []"
    using assms unfolding sortSlice_contract_def by blast
  then have "sortSlice [] = []" by simp
  with True show ?thesis
    by (simp add: predictWeightedKNN_def distanceLoop_def)
next
  case ne: False
  show ?thesis
  proof (cases "exactMatchLoop tripDays miles receipts training")
    case (Some out)
    with ne show ?thesis
      by (simp add: predictWeightedKNN_def)
  next
    case None
    let ?ranked = "sortSlice (distanceLoop tripDays miles receipts training)"
    have "?ranked \<noteq> []"
      using ranked_nonempty [OF assms ne] .
    then have "(case ?ranked of [] \<Rightarrow> Inl IndexOutOfRange
        | nearest # _ \<Rightarrow> Inr (Output nearest)) = Inr (Output (hd ?ranked))"
      by (cases ?ranked) simp_all
    with ne show ?thesis
      by (simp add: predictWeightedKNN_no_match [OF assms None])
  qed
qed

text \<open>
  The empty training set panics; a training set of one record does not.
\<close>

theorem index_panic_iff_empty_training_witness:
  "sortSlice_contract stableSortSlice
   \<and> predictWeightedKNN stableSortSlice 3 2000 50 [] 5 = Inl IndexOutOfRange
   \<and> predictWeightedKNN stableSortSlice 3 2000 50 [testCase 3 0 50 100] 5 \<noteq> Inl IndexOutOfRange"
proof -
  have "\<exists>e. predictWeightedKNN stableSortSlice 3 2000 50 [] 5 = Inl e"
    using index_panic_iff_empty_training [OF stableSortSlice_contract, of 3 2000 50 "[]" 5]
    by simp
  then have a: "predictWeightedKNN stableSortSlice 3 2000 50 [] 5 = Inl IndexOutOfRange"
    by (metis error.exhaust)
  have b: "predictWeightedKNN stableSortSlice 3 2000 50 [testCase 3 0 50 100] 5
      \<noteq> Inl IndexOutOfRange"
    using index_panic_iff_empty_training [OF stableSortSlice_contract, of 3 2000 50
        "[testCase 3 0 50 100]" 5]
    by simp
  show ?thesis
    using stableSortSlice_contract a b by simp
qed

end
